theory Spec2Isabelle
  imports Main "HOL-Library.Multiset"
begin

section \<open>JavaScript values\<close>

text \<open>
  The shim receives untyped JSON from the backend and inspects it with truthiness tests,
  \<open>Array.isArray\<close>, \<open>typeof\<close>, \<open>String\<close>, \<open>Number\<close> and \<open>Boolean\<close>. The values are
  modelled by one datatype. Numbers are integers (prices in whole units) plus \<open>NaN\<close>;
  fractional numbers and infinities are outside the model. An object is an association
  list read with first-binding-wins.
\<close>

datatype jsval =
    JUndefined
  | JNull
  | JBool bool
  | JNum int
  | JNaN
  | JStr string
  | JArr "jsval list"
  | JObj "(string \<times> jsval) list"

text \<open>Truthiness, as tested by \<open>if (x)\<close>, \<open>!x\<close>, \<open>x ? a : b\<close> and \<open>x || y\<close>.\<close>

fun truthy :: "jsval \<Rightarrow> bool" where
  "truthy JUndefined = False"
| "truthy JNull = False"
| "truthy (JBool b) = b"
| "truthy (JNum n) = (n \<noteq> 0)"
| "truthy JNaN = False"
| "truthy (JStr s) = (s \<noteq> [])"
| "truthy (JArr xs) = True"
| "truthy (JObj kvs) = True"

fun nullish :: "jsval \<Rightarrow> bool" where
  "nullish JUndefined = True"
| "nullish JNull = True"
| "nullish v = False"

fun isArray :: "jsval \<Rightarrow> bool" where
  "isArray (JArr xs) = True"
| "isArray v = False"

fun js_typeof :: "jsval \<Rightarrow> string" where
  "js_typeof JUndefined = ''undefined''"
| "js_typeof JNull = ''object''"
| "js_typeof (JBool b) = ''boolean''"
| "js_typeof (JNum n) = ''number''"
| "js_typeof JNaN = ''number''"
| "js_typeof (JStr s) = ''string''"
| "js_typeof (JArr xs) = ''object''"
| "js_typeof (JObj kvs) = ''object''"

text \<open>\<open>a || b\<close> and \<open>a ?? b\<close>.\<close>

definition js_or :: "jsval \<Rightarrow> jsval \<Rightarrow> jsval" where
  "js_or a b = (if truthy a then a else b)"

definition js_coalesce :: "jsval \<Rightarrow> jsval \<Rightarrow> jsval" where
  "js_coalesce a b = (if nullish a then b else a)"

text \<open>
  Reading a property \<open>v.k\<close> of a value that is neither \<open>null\<close> nor \<open>undefined\<close>. Only the
  column names of the two tables are ever read, and none of them is an own or inherited
  property of a boolean, number, string or array, so the read gives \<open>undefined\<close> there.
\<close>

fun js_prop :: "jsval \<Rightarrow> string \<Rightarrow> jsval" where
  "js_prop (JObj kvs) k = (case map_of kvs k of None \<Rightarrow> JUndefined | Some v \<Rightarrow> v)"
| "js_prop v k = JUndefined"

text \<open>The decimal numeral of a number, for \<open>String(n)\<close>.\<close>

fun nat_digits :: "nat \<Rightarrow> string" where
  "nat_digits n =
     (if n < 10 then [char_of (48 + n)]
      else nat_digits (n div 10) @ [char_of (48 + n mod 10)])"

declare nat_digits.simps [simp del]

definition int_digits :: "int \<Rightarrow> string" where
  "int_digits n = (if n < 0 then CHR ''-'' # nat_digits (nat (- n)) else nat_digits (nat n))"

text \<open>
  \<open>String(v)\<close>. An array is joined with commas, \<open>null\<close> and \<open>undefined\<close> elements giving
  the empty string; a plain object gives \<open>[object Object]\<close>. A number is printed with
  all its digits, which is JavaScript's output below \<open>1e21\<close> in magnitude; an object
  that carries its own \<open>toString\<close> is not modelled. The results below use only that
  \<open>String\<close> returns a string.
\<close>

fun js_String :: "jsval \<Rightarrow> string" and join_elems :: "jsval list \<Rightarrow> string" where
  "js_String JUndefined = ''undefined''"
| "js_String JNull = ''null''"
| "js_String (JBool b) = (if b then ''true'' else ''false'')"
| "js_String (JNum n) = int_digits n"
| "js_String JNaN = ''NaN''"
| "js_String (JStr s) = s"
| "js_String (JArr xs) = join_elems xs"
| "js_String (JObj kvs) = ''[object Object]''"
| "join_elems [] = []"
| "join_elems (x # xs) =
     (if nullish x then [] else js_String x) @
     (if xs = [] then [] else CHR '','' # join_elems xs)"

text \<open>
  \<open>Number(v)\<close>. A string is read as a decimal integer with an optional sign, surrounded
  by white space; the empty string is \<open>0\<close>. The model is exact on these strings only
  while the integer is one a double holds exactly. Any other string gives \<open>NaN\<close> here,
  which differs from JavaScript on the numerals with a fraction, an exponent or a radix
  prefix (\<open>'19.00'\<close>, \<open>'1e3'\<close>, \<open>'0x10'\<close>) and on white space other than space, tab,
  line feed and carriage return. The results below use only that \<open>Number\<close> returns a
  number.
\<close>

definition is_space :: "char \<Rightarrow> bool" where
  "is_space c = (c = CHR '' '' \<or> c = CHR 0x0A \<or> c = CHR 0x09 \<or> c = CHR 0x0D)"

definition is_digit :: "char \<Rightarrow> bool" where
  "is_digit c = (48 \<le> (of_char c :: nat) \<and> (of_char c :: nat) \<le> 57)"

definition trim :: "string \<Rightarrow> string" where
  "trim s = rev (dropWhile is_space (rev (dropWhile is_space s)))"

definition digits_value :: "string \<Rightarrow> nat" where
  "digits_value ds = foldl (\<lambda>acc c. 10 * acc + (of_char c - 48)) 0 ds"

definition unsigned_number :: "string \<Rightarrow> int option" where
  "unsigned_number ds =
     (if ds \<noteq> [] \<and> list_all is_digit ds then Some (int (digits_value ds)) else None)"

definition string_to_number :: "string \<Rightarrow> jsval" where
  "string_to_number s =
     (case trim s of
        [] \<Rightarrow> JNum 0
      | c # cs \<Rightarrow>
          (if c = CHR ''-'' then (case unsigned_number cs of None \<Rightarrow> JNaN | Some n \<Rightarrow> JNum (- n))
           else if c = CHR ''+'' then (case unsigned_number cs of None \<Rightarrow> JNaN | Some n \<Rightarrow> JNum n)
           else (case unsigned_number (c # cs) of None \<Rightarrow> JNaN | Some n \<Rightarrow> JNum n)))"

fun js_Number :: "jsval \<Rightarrow> jsval" where
  "js_Number JUndefined = JNaN"
| "js_Number JNull = JNum 0"
| "js_Number (JBool b) = JNum (if b then 1 else 0)"
| "js_Number (JNum n) = JNum n"
| "js_Number JNaN = JNaN"
| "js_Number (JStr s) = string_to_number s"
| "js_Number (JArr xs) = string_to_number (js_String (JArr xs))"
| "js_Number (JObj kvs) = JNaN"

definition js_Boolean :: "jsval \<Rightarrow> jsval" where
  "js_Boolean v = JBool (truthy v)"

text \<open>The \<open>TypeError\<close> raised by reading a property of \<open>null\<close> or \<open>undefined\<close>.\<close>

definition TypeError :: jsval where
  "TypeError = JObj [(''name'', JStr ''TypeError'')]"

section \<open>Completions and effects\<close>

text \<open>
  An asynchronous operation either resolves with a value or rejects with a thrown value.
  What it does to its collaborators is recorded as a trace of events, in order.
\<close>

datatype 'a completion = Returns 'a | Throws jsval

record query =
  q_table :: string
  q_columns :: string
  q_filters :: "(string \<times> jsval) list"
  q_order :: "(string \<times> bool) option"
  q_limit :: "int option"
  q_single :: bool

record oauth_request =
  provider :: string
  redirectTo :: string

datatype event =
    QueryIssued query
  | GetUserCalled
  | SignInCalled oauth_request
  | SignOutCalled
  | Reported jsval
  | Console string "jsval list"

type_synonym 'a eff = "'a completion \<times> event list"

definition eff_return :: "'a \<Rightarrow> 'a eff" where
  "eff_return v = (Returns v, [])"

definition eff_throw :: "jsval \<Rightarrow> 'a eff" where
  "eff_throw e = (Throws e, [])"

definition eff_bind :: "'a eff \<Rightarrow> ('a \<Rightarrow> 'b eff) \<Rightarrow> 'b eff" where
  "eff_bind m f =
     (case m of
        (Throws e, t) \<Rightarrow> (Throws e, t)
      | (Returns v, t) \<Rightarrow> (case f v of (r, t') \<Rightarrow> (r, t @ t')))"

definition eff_then :: "'a eff \<Rightarrow> 'b eff \<Rightarrow> 'b eff" where
  "eff_then m n = eff_bind m (\<lambda>_. n)"

text \<open>\<open>try { body } catch (error) { handler }\<close>.\<close>

definition try_catch :: "'a eff \<Rightarrow> (jsval \<Rightarrow> 'a eff) \<Rightarrow> 'a eff" where
  "try_catch body handler =
     (case body of
        (Returns v, t) \<Rightarrow> (Returns v, t)
      | (Throws e, t) \<Rightarrow> (case handler e of (r, t') \<Rightarrow> (r, t @ t')))"

text \<open>\<open>xs.map(f)\<close> where the callback may throw: the first throw ends the loop.\<close>

fun array_map :: "(jsval \<Rightarrow> jsval completion) \<Rightarrow> jsval list \<Rightarrow> jsval list completion" where
  "array_map f [] = Returns []"
| "array_map f (x # xs) =
     (case f x of
        Throws e \<Rightarrow> Throws e
      | Returns y \<Rightarrow> (case array_map f xs of Throws e \<Rightarrow> Throws e | Returns ys \<Rightarrow> Returns (y # ys)))"

definition console :: "string \<Rightarrow> jsval list \<Rightarrow> unit eff" where
  "console level args = (Returns (), [Console level args])"

section \<open>Collaborators\<close>

text \<open>
  The backend client (\<open>@/lib/supabase\<close>) and the error reporter
  (\<open>@/utils/errors/handlerApi\<close>) are imported by the shim and are not part of it. The
  client is a parameter: a record giving, for every request the shim can send, the
  completion of the awaited call. The query builder only accumulates the request; the
  request is sent when the built query is awaited.
\<close>

record query_response =
  resp_data :: jsval
  resp_error :: jsval

text \<open>
  The resolved value of \<open>auth.getUser()\<close> is \<open>{ data: { user }, error }\<close>; the client's
  declared type makes \<open>data\<close> an object in every case, so the nested destructuring of
  \<open>user\<close> cannot fail and the response is the pair of \<open>user\<close> and \<open>error\<close>.
\<close>

record user_response =
  resp_user :: jsval
  resp_userError :: jsval

record auth_response =
  resp_authError :: jsval

record world =
  run_query :: "query \<Rightarrow> query_response completion"
  auth_getUser :: "user_response completion"
  auth_signInWithOAuth :: "oauth_request \<Rightarrow> auth_response completion"
  auth_signOut :: "auth_response completion"
  window_origin :: string
  env_NEXT_SITE_URL :: "string option"

definition q_from :: "string \<Rightarrow> query" where
  "q_from t = \<lparr>q_table = t, q_columns = [], q_filters = [], q_order = None,
               q_limit = None, q_single = False\<rparr>"

definition q_select :: "query \<Rightarrow> string \<Rightarrow> query" where
  "q_select q cols = q\<lparr>q_columns := cols\<rparr>"

definition q_eq :: "query \<Rightarrow> string \<Rightarrow> jsval \<Rightarrow> query" where
  "q_eq q col v = q\<lparr>q_filters := q_filters q @ [(col, v)]\<rparr>"

definition q_order_by :: "query \<Rightarrow> string \<Rightarrow> bool \<Rightarrow> query" where
  "q_order_by q col ascending = q\<lparr>q_order := Some (col, ascending)\<rparr>"

definition q_limit_to :: "query \<Rightarrow> int \<Rightarrow> query" where
  "q_limit_to q n = q\<lparr>q_limit := Some n\<rparr>"

definition q_single_row :: "query \<Rightarrow> query" where
  "q_single_row q = q\<lparr>q_single := True\<rparr>"

definition await_query :: "world \<Rightarrow> query \<Rightarrow> query_response eff" where
  "await_query w q = (run_query w q, [QueryIssued q])"

definition await_getUser :: "world \<Rightarrow> user_response eff" where
  "await_getUser w = (auth_getUser w, [GetUserCalled])"

definition await_signInWithOAuth :: "world \<Rightarrow> oauth_request \<Rightarrow> auth_response eff" where
  "await_signInWithOAuth w r = (auth_signInWithOAuth w r, [SignInCalled r])"

definition await_signOut :: "world \<Rightarrow> auth_response eff" where
  "await_signOut w = (auth_signOut w, [SignOutCalled])"

text \<open>
  Modelled from the spec: \<open>handlerApiError\<close>, the shared error reporter, whose source is
  not in the repository. It accepts an unknown error value, reports it as a side effect
  and must not raise.
\<close>

definition handlerApiError :: "jsval \<Rightarrow> unit eff" where
  "handlerApiError e = (Returns (), [Reported e])"

definition lift :: "'a completion \<Rightarrow> 'a eff" where
  "lift c = (c, [])"

definition elems :: "jsval \<Rightarrow> jsval list" where
  "elems v = (case v of JArr xs \<Rightarrow> xs | _ \<Rightarrow> [])"

section \<open>The coercing variant: src/services/api/supabaseService.ts\<close>

text \<open>\<open>s.replace(/\s+/g, ' ')\<close>: every maximal run of white space becomes one space.\<close>

fun squeeze :: "string \<Rightarrow> string" where
  "squeeze [] = []"
| "squeeze [c] = [if is_space c then CHR '' '' else c]"
| "squeeze (c # d # cs) =
     (if is_space c \<and> is_space d then squeeze (d # cs)
      else (if is_space c then CHR '' '' else c) # squeeze (d # cs))"

definition selectQuery_coercing :: string where
  "selectQuery_coercing =
     trim (squeeze ''\<newline>        id, name, slug, \<newline>        description, cta, \<newline>        most_popular, is_featured, \<newline>        pricing_features(id, name)\<newline>      '')"

text \<open>
  The callback of \<open>data.map\<close> in \<open>fetchPricingPlans\<close>. Every property it reads is a
  property of \<open>plan\<close> itself, so it throws, at the first read \<open>plan.id\<close>, exactly when
  \<open>plan\<close> is \<open>null\<close> or \<open>undefined\<close>.
\<close>

definition coerce_plan :: "jsval \<Rightarrow> jsval completion" where
  "coerce_plan plan =
     (if nullish plan then Throws TypeError
      else Returns (JObj
        [(''id'', if truthy (js_prop plan ''id'') then JStr (js_String (js_prop plan ''id''))
                  else JStr ''Unknown''),
         (''name'', if truthy (js_prop plan ''name'') then JStr (js_String (js_prop plan ''name''))
                    else JStr ''Unknown''),
         (''slug'', if truthy (js_prop plan ''slug'') then JStr (js_String (js_prop plan ''slug''))
                    else JStr ''Unknown''),
         (''description'', js_or (js_prop plan ''description'') (JStr ''No description available'')),
         (''cta'', js_or (js_prop plan ''cta'') (JStr ''No CTA available'')),
         (''most_popular'', if js_prop plan ''most_popular'' \<noteq> JUndefined
                            then js_Boolean (js_prop plan ''most_popular'') else JBool False),
         (''is_featured'', if js_prop plan ''is_featured'' \<noteq> JUndefined
                           then js_Boolean (js_prop plan ''is_featured'') else JBool False),
         (''pricing_features'', js_or (js_prop plan ''pricing_features'') (JArr [])),
         (''price_monthly'', if truthy (js_prop plan ''price_monthly'')
                             then js_Number (js_prop plan ''price_monthly'') else JNum 0),
         (''price_yearly'', if truthy (js_prop plan ''price_yearly'')
                            then js_Number (js_prop plan ''price_yearly'') else JNum 0)]))"

definition fetchPricingPlans_coercing :: "world \<Rightarrow> int option \<Rightarrow> bool option \<Rightarrow> jsval eff" where
  "fetchPricingPlans_coercing w limit_arg is_featured_arg =
     (let limit = (case limit_arg of None \<Rightarrow> 1000 | Some n \<Rightarrow> n);
          is_featured = (case is_featured_arg of None \<Rightarrow> JBool False | Some b \<Rightarrow> JBool b)
      in try_catch
        (let selectQuery = selectQuery_coercing;
             query = q_select (q_from ''pricing_plans'') selectQuery;
             query = (if js_typeof is_featured = ''boolean''
                      then q_eq query ''is_featured'' is_featured else query)
         in eff_bind (await_query w (q_limit_to (q_order_by query ''name'' True) limit))
           (\<lambda>r. let data = resp_data r; error = resp_error r in
              if truthy error then
                eff_then (console ''error'' [JStr ''Supabase error:'', error])
                  (eff_return (JArr []))
              else if \<not> truthy data \<or> \<not> isArray data then
                eff_then (console ''error'' [JStr ''Data is not in the expected format:'', data])
                  (eff_return (JArr []))
              else
                eff_bind (lift (array_map coerce_plan (elems data)))
                  (\<lambda>plans. eff_return (JArr plans))))
        (\<lambda>error. eff_then (handlerApiError error) (eff_return (JArr []))))"

definition profileSelect_coercing :: string where
  "profileSelect_coercing =
     ''\<newline>          id, name, first_name, last_name,\<newline>          email, picture, is_subscribed,\<newline>          plan_id, stripe_customer_id,\<newline>          pricing_plans(id, name, slug, description, price_monthly, price_yearly)\<newline>        ''"

text \<open>The callback of \<open>pricingPlans.map\<close> in \<open>fetchUserProfile\<close>.\<close>

definition coerce_profile_plan :: "jsval \<Rightarrow> jsval completion" where
  "coerce_profile_plan plan =
     (if nullish plan then Throws TypeError
      else Returns (JObj
        [(''id'', JStr (js_String (js_prop plan ''id''))),
         (''name'', JStr (js_String (js_prop plan ''name''))),
         (''slug'', JStr (js_String (js_prop plan ''slug''))),
         (''description'', js_or (js_prop plan ''description'') (JStr ''No description available'')),
         (''price_monthly'', js_or (js_prop plan ''price_monthly'') (JNum 0)),
         (''price_yearly'', js_or (js_prop plan ''price_yearly'') (JNum 0))]))"

definition string_or_undefined :: "jsval \<Rightarrow> jsval" where
  "string_or_undefined v = (if truthy v then JStr (js_String v) else JUndefined)"

text \<open>The object literal \<open>profile\<close>, given the mapped plans.\<close>

definition profile_coercing :: "jsval \<Rightarrow> jsval list \<Rightarrow> jsval" where
  "profile_coercing data plans =
     JObj [(''id'', JStr (js_String (js_prop data ''id''))),
           (''name'', JStr (js_String (js_prop data ''name''))),
           (''first_name'', string_or_undefined (js_prop data ''first_name'')),
           (''last_name'', string_or_undefined (js_prop data ''last_name'')),
           (''email'', JStr (js_String (js_prop data ''email''))),
           (''picture'', string_or_undefined (js_prop data ''picture'')),
           (''is_subscribed'', js_Boolean (js_prop data ''is_subscribed'')),
           (''plan_id'', string_or_undefined (js_prop data ''plan_id'')),
           (''stripe_customer_id'', JStr (js_String (js_prop data ''stripe_customer_id''))),
           (''pricing_plans'', JArr plans)]"

definition fetchUserProfile_coercing :: "world \<Rightarrow> jsval eff" where
  "fetchUserProfile_coercing w =
     try_catch
       (eff_bind (await_getUser w)
         (\<lambda>u. let user = resp_user u; userError = resp_userError u in
            if truthy userError \<or> \<not> truthy user then
              eff_then (console ''warn'' [JStr ''No authenticated user found''])
                (eff_return JNull)
            else
              eff_bind
                (await_query w
                  (q_single_row
                    (q_eq (q_select (q_from ''profiles'') profileSelect_coercing)
                       ''id'' (js_prop user ''id''))))
                (\<lambda>r. let data = resp_data r; error = resp_error r in
                   if truthy error \<or> \<not> truthy data then
                     eff_then (console ''error'' [JStr ''Profile fetch error:'', error])
                       (eff_return JNull)
                   else
                     eff_then (console ''log'' [JStr ''Fetched User Profile:'', data])
                       (let pricingPlans =
                              (if isArray (js_prop data ''pricing_plans'')
                               then elems (js_prop data ''pricing_plans'')
                               else [js_prop data ''pricing_plans''])
                        in eff_bind (lift (array_map coerce_profile_plan pricingPlans))
                          (\<lambda>plans. eff_return (profile_coercing data plans))))))
       (\<lambda>error. eff_then (handlerApiError error) (eff_return JNull))"

definition loginWithGithub_coercing :: "world \<Rightarrow> jsval eff" where
  "loginWithGithub_coercing w =
     try_catch
       (eff_bind
          (await_signInWithOAuth w \<lparr>provider = ''github'', redirectTo = window_origin w\<rparr>)
          (\<lambda>r. eff_return (JObj [(''error'', resp_authError r)])))
       (\<lambda>error. eff_then (handlerApiError error) (eff_return (JObj [(''error'', error)])))"

definition loginWithLinkedIn_coercing :: "world \<Rightarrow> jsval eff" where
  "loginWithLinkedIn_coercing w =
     try_catch
       (eff_bind
          (await_signInWithOAuth w \<lparr>provider = ''linkedin'', redirectTo = window_origin w\<rparr>)
          (\<lambda>r. eff_return (JObj [(''error'', resp_authError r)])))
       (\<lambda>error. eff_then (handlerApiError error) (eff_return (JObj [(''error'', error)])))"

definition logout_coercing :: "world \<Rightarrow> jsval eff" where
  "logout_coercing w =
     try_catch
       (eff_bind (await_signOut w)
          (\<lambda>r. eff_return (JObj [(''error'', resp_authError r)])))
       (\<lambda>error. eff_then (handlerApiError error) (eff_return (JObj [(''error'', error)])))"

section \<open>The pass-through variant: unnamed/part_000\<close>

definition selectQuery_passthrough :: string where
  "selectQuery_passthrough =
     ''id, name, slug, price_monthly, price_yearly, description, cta, most_popular, is_featured, pricing_features(id,name)''"

definition fetchPricingPlans_passthrough :: "world \<Rightarrow> int option \<Rightarrow> bool option \<Rightarrow> jsval eff" where
  "fetchPricingPlans_passthrough w limit_arg is_featured_arg =
     try_catch
       (let limit = (case limit_arg of None \<Rightarrow> 1000 | Some n \<Rightarrow> n);
            is_featured = (case is_featured_arg of None \<Rightarrow> JBool False | Some b \<Rightarrow> JBool b);
            selectQuery = selectQuery_passthrough;
            query = q_select (q_from ''pricing_plans'') selectQuery;
            query = (if js_typeof is_featured = ''boolean''
                     then q_eq query ''is_featured'' is_featured else query)
        in eff_bind (await_query w (q_limit_to (q_order_by query ''price_monthly'' True) limit))
          (\<lambda>r. let data = resp_data r; error = resp_error r in
             if truthy error then eff_throw error
             else eff_return (js_coalesce data (JArr []))))
       (\<lambda>error. eff_then (handlerApiError error) (eff_return (JArr [])))"

definition profileSelect_passthrough :: string where
  "profileSelect_passthrough =
     ''id, name, first_name, last_name, email, picture, is_subscribed, plan_id, stripe_customer_id, pricing_plans(id, name, slug, price_monthly, price_yearly)''"

definition pick_profile_plan :: "jsval \<Rightarrow> jsval completion" where
  "pick_profile_plan plan =
     (if nullish plan then Throws TypeError
      else Returns (JObj
        [(''id'', js_prop plan ''id''),
         (''name'', js_prop plan ''name''),
         (''slug'', js_prop plan ''slug''),
         (''price_monthly'', js_prop plan ''price_monthly''),
         (''price_yearly'', js_prop plan ''price_yearly'')]))"

definition profile_passthrough :: "jsval \<Rightarrow> jsval list \<Rightarrow> jsval" where
  "profile_passthrough data plans =
     JObj [(''id'', js_prop data ''id''),
           (''name'', js_prop data ''name''),
           (''first_name'', js_prop data ''first_name''),
           (''last_name'', js_prop data ''last_name''),
           (''email'', js_prop data ''email''),
           (''picture'', js_prop data ''picture''),
           (''is_subscribed'', js_prop data ''is_subscribed''),
           (''plan_id'', js_prop data ''plan_id''),
           (''stripe_customer_id'', js_prop data ''stripe_customer_id''),
           (''pricing_plans'', JArr plans)]"

text \<open>This variant's \<open>fetchUserProfile\<close> has no \<open>try\<close> block.\<close>

definition fetchUserProfile_passthrough :: "world \<Rightarrow> jsval eff" where
  "fetchUserProfile_passthrough w =
     eff_bind (await_getUser w)
       (\<lambda>u. let user = resp_user u; userError = resp_userError u in
          if truthy userError then eff_return JNull
          else if \<not> truthy user then eff_return JNull
          else
            eff_bind
              (await_query w
                (q_single_row
                  (q_eq (q_select (q_from ''profiles'') profileSelect_passthrough)
                     ''id'' (js_prop user ''id''))))
              (\<lambda>r. let data = resp_data r; error = resp_error r in
                 if truthy error then
                   eff_then (console ''error'' [error]) (eff_return JNull)
                 else if \<not> truthy data then eff_return JNull
                 else
                   eff_bind
                     (lift (if isArray (js_prop data ''pricing_plans'')
                            then array_map pick_profile_plan (elems (js_prop data ''pricing_plans''))
                            else Returns []))
                     (\<lambda>plans. eff_return (profile_passthrough data plans))))"

text \<open>
  \<open>`${process.env.NEXT_SITE_URL}auth/callback`\<close>: an unset variable is the string
  \<open>undefined\<close> in a template literal.
\<close>

definition site_callback :: "world \<Rightarrow> string" where
  "site_callback w =
     (case env_NEXT_SITE_URL w of None \<Rightarrow> ''undefined'' | Some u \<Rightarrow> u) @ ''auth/callback''"

definition loginWithLinkedIn_passthrough :: "world \<Rightarrow> jsval eff" where
  "loginWithLinkedIn_passthrough w =
     try_catch
       (eff_bind
          (await_signInWithOAuth w \<lparr>provider = ''linkedin_oidc'', redirectTo = site_callback w\<rparr>)
          (\<lambda>r. eff_return JUndefined))
       (\<lambda>error. eff_then (handlerApiError error) (eff_return JUndefined))"

definition loginWithGithub_passthrough :: "world \<Rightarrow> jsval eff" where
  "loginWithGithub_passthrough w =
     try_catch
       (eff_bind
          (await_signInWithOAuth w \<lparr>provider = ''github'', redirectTo = ''auth/callback''\<rparr>)
          (\<lambda>r. eff_return JUndefined))
       (\<lambda>error. eff_then (handlerApiError error) (eff_return JUndefined))"

definition logout_passthrough :: "world \<Rightarrow> jsval eff" where
  "logout_passthrough w =
     try_catch
       (eff_bind (await_signOut w)
          (\<lambda>r. eff_return (JObj [(''error'', resp_authError r)])))
       (\<lambda>error. eff_then (handlerApiError error) (eff_return JUndefined))"

section \<open>Reading a trace\<close>

fun reported :: "event list \<Rightarrow> jsval list" where
  "reported [] = []"
| "reported (Reported e # t) = e # reported t"
| "reported (_ # t) = reported t"

fun queries_issued :: "event list \<Rightarrow> query list" where
  "queries_issued [] = []"
| "queries_issued (QueryIssued q # t) = q # queries_issued t"
| "queries_issued (_ # t) = queries_issued t"

fun escapes :: "'a eff \<Rightarrow> bool" where
  "escapes (Throws e, t) = True"
| "escapes (Returns v, t) = False"

text \<open>The request that \<open>fetchPricingPlans\<close> builds from its arguments, by variant.\<close>

definition pricing_request :: "string \<Rightarrow> string \<Rightarrow> int option \<Rightarrow> bool option \<Rightarrow> query" where
  "pricing_request cols order_col limit_arg is_featured_arg =
     \<lparr>q_table = ''pricing_plans'', q_columns = cols,
      q_filters = [(''is_featured'',
                    JBool (case is_featured_arg of None \<Rightarrow> False | Some b \<Rightarrow> b))],
      q_order = Some (order_col, True),
      q_limit = Some (case limit_arg of None \<Rightarrow> 1000 | Some n \<Rightarrow> n),
      q_single = False\<rparr>"

definition profile_request :: "string \<Rightarrow> jsval \<Rightarrow> query" where
  "profile_request cols user =
     \<lparr>q_table = ''profiles'', q_columns = cols,
      q_filters = [(''id'', js_prop user ''id'')],
      q_order = None, q_limit = None, q_single = True\<rparr>"


section \<open>A reference backend\<close>

text \<open>
  Modelled from the spec: the backend query client, whose source is not in the
  repository. It supports table selection, column projection (a nested relation is kept
  whole), equality filtering, ordering by a named column ascending, row-count limiting,
  and the single-row mode that errors unless exactly one row matches. A database is a
  function from table names to rows.
\<close>

fun split_top :: "nat \<Rightarrow> string \<Rightarrow> string \<Rightarrow> string list" where
  "split_top d cur [] = [cur]"
| "split_top d cur (c # cs) =
     (if c = CHR ''('' then split_top (Suc d) (cur @ [c]) cs
      else if c = CHR '')'' then split_top (d - 1) (cur @ [c]) cs
      else if c = CHR '','' \<and> d = 0 then cur # split_top 0 [] cs
      else split_top d (cur @ [c]) cs)"

definition select_columns :: "string \<Rightarrow> string list" where
  "select_columns s = map (\<lambda>item. trim (takeWhile (\<lambda>c. c \<noteq> CHR ''('') item)) (split_top 0 [] s)"

definition project :: "string list \<Rightarrow> jsval \<Rightarrow> jsval" where
  "project cols row =
     (case row of JObj kvs \<Rightarrow> JObj (filter (\<lambda>kv. fst kv \<in> set cols) kvs) | v \<Rightarrow> v)"

definition matches :: "(string \<times> jsval) list \<Rightarrow> jsval \<Rightarrow> bool" where
  "matches filters row = list_all (\<lambda>f. js_prop row (fst f) = snd f) filters"

fun str_le :: "string \<Rightarrow> string \<Rightarrow> bool" where
  "str_le [] ys = True"
| "str_le (x # xs) [] = False"
| "str_le (x # xs) (y # ys) =
     ((of_char x :: nat) < of_char y \<or> (x = y \<and> str_le xs ys))"

text \<open>Ascending order of column values: numbers, then strings, then the rest.\<close>

fun col_rank :: "jsval \<Rightarrow> nat" where
  "col_rank (JNum n) = 0"
| "col_rank (JStr s) = 1"
| "col_rank v = 2"

fun col_le :: "jsval \<Rightarrow> jsval \<Rightarrow> bool" where
  "col_le (JNum a) (JNum b) = (a \<le> b)"
| "col_le (JStr a) (JStr b) = str_le a b"
| "col_le a b = (col_rank a \<le> col_rank b)"

fun insert_row :: "string \<Rightarrow> jsval \<Rightarrow> jsval list \<Rightarrow> jsval list" where
  "insert_row c r [] = [r]"
| "insert_row c r (x # xs) =
     (if col_le (js_prop r c) (js_prop x c) then r # x # xs else x # insert_row c r xs)"

definition sort_rows :: "string \<Rightarrow> jsval list \<Rightarrow> jsval list" where
  "sort_rows c rows = foldr (insert_row c) rows []"

definition PGRST116 :: jsval where
  "PGRST116 = JObj [(''code'', JStr ''PGRST116'')]"

definition table_backend :: "(string \<Rightarrow> jsval list) \<Rightarrow> query \<Rightarrow> query_response completion" where
  "table_backend db q =
     (let rows = filter (matches (q_filters q)) (db (q_table q));
          rows = (case q_order q of
                    None \<Rightarrow> rows
                  | Some (c, ascending) \<Rightarrow>
                      if ascending then sort_rows c rows else rev (sort_rows c rows));
          rows = (case q_limit q of None \<Rightarrow> rows | Some n \<Rightarrow> take (nat n) rows);
          rows = map (project (select_columns (q_columns q))) rows
      in if q_single q then
           (case rows of
              [r] \<Rightarrow> Returns \<lparr>resp_data = r, resp_error = JNull\<rparr>
            | _ \<Rightarrow> Returns \<lparr>resp_data = JNull, resp_error = PGRST116\<rparr>)
         else Returns \<lparr>resp_data = JArr rows, resp_error = JNull\<rparr>)"

text \<open>A client over a database, with a signed-in user and a working auth service.\<close>

definition table_world :: "(string \<Rightarrow> jsval list) \<Rightarrow> jsval \<Rightarrow> world" where
  "table_world db user =
     \<lparr>run_query = table_backend db,
      auth_getUser = Returns \<lparr>resp_user = user, resp_userError = JNull\<rparr>,
      auth_signInWithOAuth = (\<lambda>r. Returns \<lparr>resp_authError = JNull\<rparr>),
      auth_signOut = Returns \<lparr>resp_authError = JNull\<rparr>,
      window_origin = ''https://example.test'',
      env_NEXT_SITE_URL = Some ''https://example.test/''\<rparr>"

definition price_of :: "jsval \<Rightarrow> int" where
  "price_of row = (case js_prop row ''price_monthly'' of JNum n \<Rightarrow> n | _ \<Rightarrow> 0)"

definition featured_rows :: "(string \<Rightarrow> jsval list) \<Rightarrow> jsval list" where
  "featured_rows db = filter (matches [(''is_featured'', JBool True)]) (db ''pricing_plans'')"

definition names_of :: "jsval completion \<Rightarrow> jsval list" where
  "names_of c = (case c of Returns v \<Rightarrow> map (\<lambda>p. js_prop p ''name'') (elems v) | Throws e \<Rightarrow> [])"

definition numeric_at :: "string \<Rightarrow> jsval \<Rightarrow> bool" where
  "numeric_at c row = (case js_prop row c of JNum n \<Rightarrow> True | _ \<Rightarrow> False)"

definition cheapest_names :: "(string \<Rightarrow> jsval list) \<Rightarrow> nat \<Rightarrow> jsval list" where
  "cheapest_names db n =
     map (\<lambda>p. js_prop p ''name'') (take n (sort_rows ''price_monthly'' (featured_rows db)))"

section \<open>Sample collaborators\<close>

definition plan_row :: "int \<Rightarrow> string \<Rightarrow> int \<Rightarrow> bool \<Rightarrow> jsval" where
  "plan_row i n price feat =
     JObj [(''id'', JNum i), (''name'', JStr n), (''slug'', JStr n),
           (''description'', JNull), (''cta'', JStr ''Buy''),
           (''most_popular'', JBool False), (''is_featured'', JBool feat),
           (''price_monthly'', JNum price), (''price_yearly'', JNum (10 * price)),
           (''pricing_features'', JArr [])]"

definition sample_plans :: "jsval list" where
  "sample_plans =
     [plan_row 1 ''Alpha'' 50 True, plan_row 2 ''Bravo'' 40 True,
      plan_row 3 ''Charlie'' 30 True, plan_row 4 ''Delta'' 10 True,
      plan_row 5 ''Echo'' 20 True, plan_row 6 ''Foxtrot'' 5 False]"

definition sample_user :: jsval where
  "sample_user = JObj [(''id'', JStr ''u1'')]"

definition profile_row :: "jsval \<Rightarrow> jsval" where
  "profile_row plans =
     JObj [(''id'', JStr ''u1''), (''name'', JStr ''Ada''), (''first_name'', JNull),
           (''last_name'', JNull), (''email'', JStr ''ada@example.test''),
           (''picture'', JNull), (''is_subscribed'', JBool True), (''plan_id'', JNum 4),
           (''stripe_customer_id'', JStr ''cus_1''), (''pricing_plans'', plans)]"

definition sample_db :: "jsval \<Rightarrow> string \<Rightarrow> jsval list" where
  "sample_db plans t =
     (if t = ''pricing_plans'' then sample_plans
      else if t = ''profiles'' then [profile_row plans]
      else [])"

text \<open>A client whose every call fails in the given way.\<close>

definition failing_response :: "jsval \<Rightarrow> world" where
  "failing_response e =
     \<lparr>run_query = (\<lambda>q. Returns \<lparr>resp_data = JNull, resp_error = e\<rparr>),
      auth_getUser = Returns \<lparr>resp_user = JNull, resp_userError = e\<rparr>,
      auth_signInWithOAuth = (\<lambda>r. Returns \<lparr>resp_authError = e\<rparr>),
      auth_signOut = Returns \<lparr>resp_authError = e\<rparr>,
      window_origin = ''https://example.test'',
      env_NEXT_SITE_URL = None\<rparr>"

definition throwing :: "jsval \<Rightarrow> world" where
  "throwing e =
     \<lparr>run_query = (\<lambda>q. Throws e),
      auth_getUser = Throws e,
      auth_signInWithOAuth = (\<lambda>r. Throws e),
      auth_signOut = Throws e,
      window_origin = ''https://example.test'',
      env_NEXT_SITE_URL = None\<rparr>"

definition answering :: "jsval \<Rightarrow> world" where
  "answering d =
     \<lparr>run_query = (\<lambda>q. Returns \<lparr>resp_data = d, resp_error = JNull\<rparr>),
      auth_getUser = Returns \<lparr>resp_user = sample_user, resp_userError = JNull\<rparr>,
      auth_signInWithOAuth = (\<lambda>r. Returns \<lparr>resp_authError = JNull\<rparr>),
      auth_signOut = Returns \<lparr>resp_authError = JNull\<rparr>,
      window_origin = ''https://example.test'',
      env_NEXT_SITE_URL = None\<rparr>"

definition network_down :: jsval where
  "network_down = JObj [(''message'', JStr ''Failed to fetch'')]"

section \<open>How each operation answers its collaborators\<close>



lemmas eff_defs = eff_bind_def eff_then_def eff_return_def eff_throw_def try_catch_def lift_def
  console_def handlerApiError_def await_query_def await_getUser_def await_signInWithOAuth_def
  await_signOut_def

lemmas q_defs = q_from_def q_select_def q_eq_def q_order_by_def q_limit_to_def q_single_row_def

lemma isArray_truthy: "isArray v \<Longrightarrow> truthy v"
  by (cases v) simp_all

lemma fetchPricingPlans_coercing_eq:
  "fetchPricingPlans_coercing w lim feat =
     (let q = pricing_request selectQuery_coercing ''name'' lim feat in
      case run_query w q of
        Throws e \<Rightarrow> (Returns (JArr []), [QueryIssued q, Reported e])
      | Returns r \<Rightarrow>
          if truthy (resp_error r) then
            (Returns (JArr []), [QueryIssued q, Console ''error'' [JStr ''Supabase error:'', resp_error r]])
          else if \<not> isArray (resp_data r) then
            (Returns (JArr []),
             [QueryIssued q, Console ''error'' [JStr ''Data is not in the expected format:'', resp_data r]])
          else
            (case array_map coerce_plan (elems (resp_data r)) of
               Throws e \<Rightarrow> (Returns (JArr []), [QueryIssued q, Reported e])
             | Returns ps \<Rightarrow> (Returns (JArr ps), [QueryIssued q])))"
  by (cases feat; cases lim)
     (auto simp add: fetchPricingPlans_coercing_def pricing_request_def eff_defs q_defs Let_def
        isArray_truthy split: completion.splits)

lemma fetchPricingPlans_passthrough_eq:
  "fetchPricingPlans_passthrough w lim feat =
     (let q = pricing_request selectQuery_passthrough ''price_monthly'' lim feat in
      case run_query w q of
        Throws e \<Rightarrow> (Returns (JArr []), [QueryIssued q, Reported e])
      | Returns r \<Rightarrow>
          if truthy (resp_error r) then
            (Returns (JArr []), [QueryIssued q, Reported (resp_error r)])
          else (Returns (js_coalesce (resp_data r) (JArr [])), [QueryIssued q]))"
  by (cases feat; cases lim)
     (auto simp add: fetchPricingPlans_passthrough_def pricing_request_def eff_defs q_defs Let_def
        split: completion.splits)


lemma fetchUserProfile_coercing_eq:
  "fetchUserProfile_coercing w =
     (case auth_getUser w of
        Throws e \<Rightarrow> (Returns JNull, [GetUserCalled, Reported e])
      | Returns u \<Rightarrow>
          if truthy (resp_userError u) \<or> \<not> truthy (resp_user u) then
            (Returns JNull, [GetUserCalled, Console ''warn'' [JStr ''No authenticated user found'']])
          else
            (let q = profile_request profileSelect_coercing (resp_user u) in
             case run_query w q of
               Throws e \<Rightarrow> (Returns JNull, [GetUserCalled, QueryIssued q, Reported e])
             | Returns r \<Rightarrow>
                 if truthy (resp_error r) \<or> \<not> truthy (resp_data r) then
                   (Returns JNull,
                    [GetUserCalled, QueryIssued q,
                     Console ''error'' [JStr ''Profile fetch error:'', resp_error r]])
                 else
                   (case array_map coerce_profile_plan
                           (if isArray (js_prop (resp_data r) ''pricing_plans'')
                            then elems (js_prop (resp_data r) ''pricing_plans'')
                            else [js_prop (resp_data r) ''pricing_plans'']) of
                      Throws e \<Rightarrow>
                        (Returns JNull,
                         [GetUserCalled, QueryIssued q,
                          Console ''log'' [JStr ''Fetched User Profile:'', resp_data r],
                          Reported e])
                    | Returns ps \<Rightarrow>
                        (Returns (profile_coercing (resp_data r) ps),
                         [GetUserCalled, QueryIssued q,
                          Console ''log'' [JStr ''Fetched User Profile:'', resp_data r]]))))"
  by (auto simp add: fetchUserProfile_coercing_def profile_request_def eff_defs q_defs Let_def
        split: completion.splits)

lemma fetchUserProfile_passthrough_eq:
  "fetchUserProfile_passthrough w =
     (case auth_getUser w of
        Throws e \<Rightarrow> (Throws e, [GetUserCalled])
      | Returns u \<Rightarrow>
          if truthy (resp_userError u) \<or> \<not> truthy (resp_user u) then
            (Returns JNull, [GetUserCalled])
          else
            (let q = profile_request profileSelect_passthrough (resp_user u) in
             case run_query w q of
               Throws e \<Rightarrow> (Throws e, [GetUserCalled, QueryIssued q])
             | Returns r \<Rightarrow>
                 if truthy (resp_error r) then
                   (Returns JNull, [GetUserCalled, QueryIssued q, Console ''error'' [resp_error r]])
                 else if \<not> truthy (resp_data r) then
                   (Returns JNull, [GetUserCalled, QueryIssued q])
                 else
                   (case (if isArray (js_prop (resp_data r) ''pricing_plans'')
                          then array_map pick_profile_plan
                                 (elems (js_prop (resp_data r) ''pricing_plans''))
                          else Returns []) of
                      Throws e \<Rightarrow> (Throws e, [GetUserCalled, QueryIssued q])
                    | Returns ps \<Rightarrow>
                        (Returns (profile_passthrough (resp_data r) ps),
                         [GetUserCalled, QueryIssued q]))))"
  by (auto simp add: fetchUserProfile_passthrough_def profile_request_def eff_defs q_defs Let_def
        split: completion.splits)

lemma login_coercing_eq:
  "loginWithGithub_coercing w =
     (let rq = \<lparr>provider = ''github'', redirectTo = window_origin w\<rparr> in
      case auth_signInWithOAuth w rq of
        Throws e \<Rightarrow> (Returns (JObj [(''error'', e)]), [SignInCalled rq, Reported e])
      | Returns r \<Rightarrow> (Returns (JObj [(''error'', resp_authError r)]), [SignInCalled rq]))"
  "loginWithLinkedIn_coercing w =
     (let rq = \<lparr>provider = ''linkedin'', redirectTo = window_origin w\<rparr> in
      case auth_signInWithOAuth w rq of
        Throws e \<Rightarrow> (Returns (JObj [(''error'', e)]), [SignInCalled rq, Reported e])
      | Returns r \<Rightarrow> (Returns (JObj [(''error'', resp_authError r)]), [SignInCalled rq]))"
  "logout_coercing w =
     (case auth_signOut w of
        Throws e \<Rightarrow> (Returns (JObj [(''error'', e)]), [SignOutCalled, Reported e])
      | Returns r \<Rightarrow> (Returns (JObj [(''error'', resp_authError r)]), [SignOutCalled]))"
  by (auto simp add: loginWithGithub_coercing_def loginWithLinkedIn_coercing_def
        logout_coercing_def eff_defs Let_def split: completion.splits)

lemma login_passthrough_eq:
  "loginWithGithub_passthrough w =
     (let rq = \<lparr>provider = ''github'', redirectTo = ''auth/callback''\<rparr> in
      case auth_signInWithOAuth w rq of
        Throws e \<Rightarrow> (Returns JUndefined, [SignInCalled rq, Reported e])
      | Returns r \<Rightarrow> (Returns JUndefined, [SignInCalled rq]))"
  "loginWithLinkedIn_passthrough w =
     (let rq = \<lparr>provider = ''linkedin_oidc'', redirectTo = site_callback w\<rparr> in
      case auth_signInWithOAuth w rq of
        Throws e \<Rightarrow> (Returns JUndefined, [SignInCalled rq, Reported e])
      | Returns r \<Rightarrow> (Returns JUndefined, [SignInCalled rq]))"
  "logout_passthrough w =
     (case auth_signOut w of
        Throws e \<Rightarrow> (Returns JUndefined, [SignOutCalled, Reported e])
      | Returns r \<Rightarrow> (Returns (JObj [(''error'', resp_authError r)]), [SignOutCalled]))"
  by (auto simp add: loginWithGithub_passthrough_def loginWithLinkedIn_passthrough_def
        logout_passthrough_def eff_defs Let_def split: completion.splits)






lemma array_map_length: "array_map f xs = Returns ys \<Longrightarrow> length ys = length xs"
  by (induction xs arbitrary: ys) (auto split: completion.splits)


text \<open>
  An omitted \<open>is_featured\<close> is replaced by \<open>false\<close> before the \<open>typeof\<close> test, so
  the one query sent always carries the filter \<open>is_featured = false\<close>.
\<close>

lemma omitted_flag_query:
  "queries_issued (snd (fetchPricingPlans_coercing w lim None)) =
     [pricing_request selectQuery_coercing ''name'' lim None]"
  "queries_issued (snd (fetchPricingPlans_passthrough w lim None)) =
     [pricing_request selectQuery_passthrough ''price_monthly'' lim None]"
  "q_filters (pricing_request cols c lim None) = [(''is_featured'', JBool False)]"
  by (simp_all add: fetchPricingPlans_coercing_eq fetchPricingPlans_passthrough_eq Let_def
        pricing_request_def split: completion.splits)

section \<open>The reference backend sorts and projects\<close>

lemma mset_insert_row: "mset (insert_row c r xs) = add_mset r (mset xs)"
  by (induction xs) auto

lemma mset_sort_rows: "mset (sort_rows c xs) = mset xs"
  by (induction xs) (auto simp: sort_rows_def mset_insert_row)

lemma set_sort_rows: "set (sort_rows c xs) = set xs"
  by (metis mset_sort_rows set_mset_mset)

lemma length_sort_rows: "length (sort_rows c xs) = length xs"
  by (metis mset_sort_rows size_mset)

lemma insert_row_prices:
  assumes "\<forall>x\<in>set (r # xs). numeric_at ''price_monthly'' x"
  shows "insert_row ''price_monthly'' r xs = insort_key price_of r xs"
  using assms
  by (induction xs) (auto simp: numeric_at_def price_of_def split: jsval.splits)

lemma sort_rows_prices:
  assumes "\<forall>x\<in>set xs. numeric_at ''price_monthly'' x"
  shows "sort_rows ''price_monthly'' xs = sort_key price_of xs"
  using assms
proof (induction xs)
  case Nil
  then show ?case by (simp add: sort_rows_def)
next
  case (Cons x xs)
  then have "sort_rows ''price_monthly'' xs = sort_key price_of xs" by simp
  moreover have "\<forall>y\<in>set (x # sort_key price_of xs). numeric_at ''price_monthly'' y"
    using Cons.prems by simp
  ultimately show ?case
    using insert_row_prices [of x "sort_key price_of xs"] by (simp add: sort_rows_def)
qed

lemma sorted_prices:
  assumes "\<forall>x\<in>set xs. numeric_at ''price_monthly'' x"
  shows "sorted (map price_of (sort_rows ''price_monthly'' xs))"
  using assms by (simp add: sort_rows_prices)

lemma cheapest_first:
  assumes "sorted (map f ys)"
  shows "\<forall>a\<in>set (take n ys). \<forall>b\<in>set (drop n ys). f a \<le> f b"
proof -
  have "sorted (map f (take n ys) @ map f (drop n ys))"
    using assms by (simp flip: map_append)
  then show ?thesis by (auto simp: sorted_append)
qed

lemma js_prop_project:
  "k \<in> set cols \<Longrightarrow> js_prop (project cols row) k = js_prop row k"
proof (cases row)
  case (JObj kvs)
  assume k: "k \<in> set cols"
  have "map_of (filter (\<lambda>kv. fst kv \<in> set cols) kvs) k = map_of kvs k"
    using k by (induction kvs) auto
  then show ?thesis using JObj by (simp add: project_def)
qed (simp_all add: project_def)

lemma passthrough_columns:
  "select_columns selectQuery_passthrough =
     [''id'', ''name'', ''slug'', ''price_monthly'', ''price_yearly'', ''description'', ''cta'',
      ''most_popular'', ''is_featured'', ''pricing_features'']"
  by code_simp


lemma sample_featured:
  "featured_rows (sample_db x) =
     [plan_row 1 ''Alpha'' 50 True, plan_row 2 ''Bravo'' 40 True,
      plan_row 3 ''Charlie'' 30 True, plan_row 4 ''Delta'' 10 True,
      plan_row 5 ''Echo'' 20 True]"
  by (simp add: featured_rows_def sample_db_def sample_plans_def matches_def plan_row_def)

lemma sample_sorted:
  "sort_rows ''price_monthly'' (featured_rows (sample_db x)) =
     [plan_row 4 ''Delta'' 10 True, plan_row 5 ''Echo'' 20 True,
      plan_row 3 ''Charlie'' 30 True, plan_row 2 ''Bravo'' 40 True,
      plan_row 1 ''Alpha'' 50 True]"
  unfolding sample_featured by (simp add: sort_rows_def plan_row_def)


lemma coercing_columns:
  "select_columns selectQuery_coercing =
     [''id'', ''name'', ''slug'', ''description'', ''cta'',
      ''most_popular'', ''is_featured'', ''pricing_features'']"
  by code_simp

lemma table_backend_pricing:
  "table_backend db (pricing_request cols c (Some 2) (Some True)) =
     Returns \<lparr>resp_data = JArr (map (project (select_columns cols))
                                  (take 2 (sort_rows c (featured_rows db)))),
              resp_error = JNull\<rparr>"
  by (simp add: table_backend_def pricing_request_def featured_rows_def Let_def)

text \<open>The ordering of column values is a total preorder, so every sort is sorted.\<close>

lemma str_le_total: "str_le a b \<or> str_le b a"
  by (induction a b rule: str_le.induct) auto

lemma str_le_trans: "str_le a b \<Longrightarrow> str_le b c \<Longrightarrow> str_le a c"
proof (induction a b arbitrary: c rule: str_le.induct)
  case (1 ys)
  then show ?case by simp
next
  case (2 x xs)
  then show ?case by simp
next
  case (3 x xs y ys)
  then show ?case by (cases c) auto
qed

lemma col_le_rank: "col_le a b \<Longrightarrow> col_rank a \<le> col_rank b"
  by (cases a; cases b) simp_all

lemma col_le_total: "col_le a b \<or> col_le b a"
  using str_le_total by (cases a; cases b) auto

lemma col_le_lower_rank: "col_rank a < col_rank b \<Longrightarrow> col_le a b"
  by (cases a; cases b) simp_all

lemma col_rank_0: "col_rank a = 0 \<Longrightarrow> \<exists>n. a = JNum n"
  by (cases a) simp_all

lemma col_rank_1: "col_rank a = Suc 0 \<Longrightarrow> \<exists>s. a = JStr s"
  by (cases a) simp_all

lemma col_le_rest: "col_rank a \<noteq> 0 \<Longrightarrow> col_rank a \<noteq> Suc 0 \<Longrightarrow> col_rank b = col_rank a \<Longrightarrow> col_le a b"
  by (cases a; cases b) simp_all

lemma col_le_trans:
  assumes ab: "col_le a b" and bc: "col_le b c"
  shows "col_le a c"
proof (cases "col_rank a < col_rank c")
  case True
  then show ?thesis by (rule col_le_lower_rank)
next
  case False
  have "col_rank a \<le> col_rank b" "col_rank b \<le> col_rank c"
    using ab bc by (auto dest: col_le_rank)
  with False have eq: "col_rank b = col_rank a" "col_rank c = col_rank a" by auto
  consider "col_rank a = 0" | "col_rank a = Suc 0" | "col_rank a \<noteq> 0 \<and> col_rank a \<noteq> Suc 0"
    by blast
  then show ?thesis
  proof cases
    case 1
    then obtain x y z where "a = JNum x" "b = JNum y" "c = JNum z"
      using eq col_rank_0 by metis
    then show ?thesis using ab bc by simp
  next
    case 2
    then obtain x y z where "a = JStr x" "b = JStr y" "c = JStr z"
      using eq col_rank_1 by metis
    then show ?thesis using ab bc str_le_trans by auto
  next
    case 3
    then show ?thesis using eq by (simp add: col_le_rest)
  qed
qed

lemma set_insert_row: "set (insert_row c r xs) = insert r (set xs)"
  by (induction xs) auto

lemma sorted_insert_row:
  assumes "sorted_wrt (\<lambda>a b. col_le (js_prop a c) (js_prop b c)) xs"
  shows "sorted_wrt (\<lambda>a b. col_le (js_prop a c) (js_prop b c)) (insert_row c r xs)"
  using assms
proof (induction xs)
  case Nil
  then show ?case by simp
next
  case (Cons x xs)
  show ?case
  proof (cases "col_le (js_prop r c) (js_prop x c)")
    case True
    then have "\<forall>y\<in>set xs. col_le (js_prop r c) (js_prop y c)"
      using Cons.prems col_le_trans by auto
    then show ?thesis using True Cons.prems by simp
  next
    case False
    then have "col_le (js_prop x c) (js_prop r c)"
      using col_le_total by blast
    then show ?thesis using False Cons by (auto simp: set_insert_row)
  qed
qed

lemma sorted_sort_rows:
  "sorted_wrt (\<lambda>a b. col_le (js_prop a c) (js_prop b c)) (sort_rows c xs)"
  by (induction xs) (simp_all add: sort_rows_def sorted_insert_row)

lemma featured_row_object: "x \<in> set (featured_rows db) \<Longrightarrow> \<not> nullish x"
  by (cases x) (auto simp: featured_rows_def matches_def)

lemma project_nullish: "nullish (project cols x) = nullish x"
  by (cases x) (simp_all add: project_def)


lemma coerce_plan_object: "\<not> nullish x \<Longrightarrow> \<exists>p. coerce_plan x = Returns p"
  by (simp add: coerce_plan_def)

lemma array_map_coerce_plan_total:
  "\<forall>x\<in>set xs. \<not> nullish x \<Longrightarrow> \<exists>ps. array_map coerce_plan xs = Returns ps"
proof (induction xs)
  case Nil
  then show ?case by simp
next
  case (Cons x xs)
  then obtain p ps where "coerce_plan x = Returns p" "array_map coerce_plan xs = Returns ps"
    using coerce_plan_object [of x] by auto
  then show ?case by simp
qed








section \<open>The boundary\<close>

text \<open>
  Nine of the ten operations never let a thrown value escape, whatever the collaborators
  do: each wraps its body in a \<open>try\<close> block whose handler reports and returns.
\<close>

lemma boundary_holds_elsewhere:
  "\<not> escapes (fetchPricingPlans_coercing w lim feat)"
  "\<not> escapes (fetchPricingPlans_passthrough w lim feat)"
  "\<not> escapes (fetchUserProfile_coercing w)"
  "\<not> escapes (loginWithGithub_coercing w)"
  "\<not> escapes (loginWithLinkedIn_coercing w)"
  "\<not> escapes (logout_coercing w)"
  "\<not> escapes (loginWithGithub_passthrough w)"
  "\<not> escapes (loginWithLinkedIn_passthrough w)"
  "\<not> escapes (logout_passthrough w)"
  by (simp_all add: fetchPricingPlans_coercing_eq fetchPricingPlans_passthrough_eq
        fetchUserProfile_coercing_eq login_coercing_eq login_passthrough_eq Let_def
        split: completion.splits)

text \<open>
  Claim C1. Every operation of the shim returns a value and never propagates a thrown
  error, whatever the collaborators do. The pass-through variant's \<open>fetchUserProfile\<close>
  has no \<open>try\<close> block: when \<open>auth.getUser\<close> rejects, the rejection reaches the caller
  and nothing is reported.
\<close>

theorem C1_passthrough_fetchUserProfile_rethrows:
  "fetchUserProfile_passthrough (throwing network_down) = (Throws network_down, [GetUserCalled])"
  by (simp add: fetchUserProfile_passthrough_eq throwing_def)

section \<open>Fetching the profile\<close>

text \<open>
  Claim C2. A profile row whose joined pricing-plan relation is a single object is
  normalized by \<open>fetchUserProfile\<close> into a one-element collection. This holds in the
  coercing variant. The pass-through variant maps the relation only when it is an array
  and returns the empty collection for anything else, a single object included.
\<close>

theorem C2_single_object_relation:
  assumes "auth_getUser w = Returns u"
      and "\<not> truthy (resp_userError u)" and "truthy (resp_user u)"
      and "run_query w (profile_request profileSelect_coercing (resp_user u)) = Returns r"
      and "\<not> truthy (resp_error r)" and "truthy (resp_data r)"
      and "js_prop (resp_data r) ''pricing_plans'' = JObj kvs"
      and "run_query w (profile_request profileSelect_passthrough (resp_user u)) = Returns r'"
      and "\<not> truthy (resp_error r')" and "truthy (resp_data r')"
      and "js_prop (resp_data r') ''pricing_plans'' = JObj kvs'"
  shows "(\<exists>p. coerce_profile_plan (JObj kvs) = Returns p \<and>
              fst (fetchUserProfile_coercing w) = Returns (profile_coercing (resp_data r) [p]) \<and>
              js_prop (profile_coercing (resp_data r) [p]) ''pricing_plans'' = JArr [p]) \<and>
         fst (fetchUserProfile_passthrough w) = Returns (profile_passthrough (resp_data r') []) \<and>
         js_prop (profile_passthrough (resp_data r') []) ''pricing_plans'' = JArr []"
  using assms
  by (simp add: fetchUserProfile_coercing_eq fetchUserProfile_passthrough_eq Let_def
        coerce_profile_plan_def profile_coercing_def profile_passthrough_def)

theorem C2_single_object_relation_witness:
  "(\<exists>p. fst (fetchUserProfile_coercing (answering (profile_row (plan_row 4 ''Delta'' 10 True)))) =
          Returns (profile_coercing (profile_row (plan_row 4 ''Delta'' 10 True)) [p])) \<and>
   fst (fetchUserProfile_passthrough (answering (profile_row (plan_row 4 ''Delta'' 10 True)))) =
     Returns (profile_passthrough (profile_row (plan_row 4 ''Delta'' 10 True)) [])"
proof -
  let ?d = "profile_row (plan_row 4 ''Delta'' 10 True)"
  let ?w = "answering ?d"
  let ?u = "\<lparr>resp_user = sample_user, resp_userError = JNull\<rparr>"
  let ?r = "\<lparr>resp_data = ?d, resp_error = JNull\<rparr>"
  let ?kvs = "[(''id'', JNum 4), (''name'', JStr ''Delta''), (''slug'', JStr ''Delta''),
               (''description'', JNull), (''cta'', JStr ''Buy''),
               (''most_popular'', JBool False), (''is_featured'', JBool True),
               (''price_monthly'', JNum 10), (''price_yearly'', JNum (10 * 10)),
               (''pricing_features'', JArr [])]"
  have 1: "auth_getUser ?w = Returns ?u" by (simp add: answering_def)
  have 2: "\<not> truthy (resp_userError ?u)" by simp
  have 3: "truthy (resp_user ?u)" by (simp add: sample_user_def)
  have 4: "run_query ?w (profile_request c (resp_user ?u)) = Returns ?r" for c
    by (simp add: answering_def)
  have 5: "\<not> truthy (resp_error ?r)" by simp
  have 6: "truthy (resp_data ?r)" by (simp add: profile_row_def)
  have 7: "js_prop (resp_data ?r) ''pricing_plans'' = JObj ?kvs"
    by (simp add: profile_row_def plan_row_def)
  show ?thesis
    using C2_single_object_relation [OF 1 2 3 4 5 6 7 4 5 6 7] by auto
qed

text \<open>
  The claim as stated fails in the pass-through variant: the single plan of the sample
  profile row is dropped.
\<close>

theorem C2_passthrough_drops_single_plan:
  "fst (fetchUserProfile_passthrough (answering (profile_row (plan_row 4 ''Delta'' 10 True)))) =
     Returns (profile_passthrough (profile_row (plan_row 4 ''Delta'' 10 True)) []) \<and>
   js_prop (profile_passthrough (profile_row (plan_row 4 ''Delta'' 10 True)) []) ''pricing_plans''
     = JArr []"
  by (simp add: fetchUserProfile_passthrough_eq answering_def sample_user_def Let_def
        profile_row_def plan_row_def profile_passthrough_def)

text \<open>
  Claim C5. Whenever \<open>auth.getUser\<close> returns an error, \<open>fetchUserProfile\<close> returns
  \<open>null\<close> and issues no profile query. Both variants test the error before building the
  query.
\<close>

theorem C5_getUser_error_gives_null_without_query:
  assumes "auth_getUser w = Returns u" and "truthy (resp_userError u)"
  shows "fst (fetchUserProfile_coercing w) = Returns JNull \<and>
         queries_issued (snd (fetchUserProfile_coercing w)) = [] \<and>
         fst (fetchUserProfile_passthrough w) = Returns JNull \<and>
         queries_issued (snd (fetchUserProfile_passthrough w)) = []"
  using assms by (simp add: fetchUserProfile_coercing_eq fetchUserProfile_passthrough_eq)

theorem C5_getUser_error_gives_null_without_query_witness:
  "auth_getUser (failing_response network_down) =
     Returns \<lparr>resp_user = JNull, resp_userError = network_down\<rparr> \<and>
   truthy (resp_userError \<lparr>resp_user = JNull, resp_userError = network_down\<rparr>) \<and>
   fst (fetchUserProfile_coercing (failing_response network_down)) = Returns JNull \<and>
   queries_issued (snd (fetchUserProfile_coercing (failing_response network_down))) = [] \<and>
   fst (fetchUserProfile_passthrough (failing_response network_down)) = Returns JNull \<and>
   queries_issued (snd (fetchUserProfile_passthrough (failing_response network_down))) = []"
proof -
  have g: "auth_getUser (failing_response network_down) =
             Returns \<lparr>resp_user = JNull, resp_userError = network_down\<rparr>"
    by (simp add: failing_response_def)
  have t: "truthy (resp_userError \<lparr>resp_user = JNull, resp_userError = network_down\<rparr>)"
    by (simp add: network_down_def)
  show ?thesis
    using C5_getUser_error_gives_null_without_query [OF g t] g t by simp
qed

text \<open>
  Claim C9. In the coercing variant, when the profile row's joined \<open>pricing_plans\<close>
  relation is \<open>null\<close> or absent, \<open>fetchUserProfile\<close> does not return a profile with an
  empty plan list: the value is wrapped into a one-element list, mapping over it throws
  a \<open>TypeError\<close>, the handler reports it and the call returns \<open>null\<close>.
\<close>

theorem C9_null_relation_reports_and_returns_null:
  assumes "auth_getUser w = Returns u"
      and "\<not> truthy (resp_userError u)" and "truthy (resp_user u)"
      and "run_query w (profile_request profileSelect_coercing (resp_user u)) = Returns r"
      and "\<not> truthy (resp_error r)" and "truthy (resp_data r)"
      and "nullish (js_prop (resp_data r) ''pricing_plans'')"
  shows "array_map coerce_profile_plan [js_prop (resp_data r) ''pricing_plans''] = Throws TypeError \<and>
         fst (fetchUserProfile_coercing w) = Returns JNull \<and>
         reported (snd (fetchUserProfile_coercing w)) = [TypeError]"
proof -
  have "\<not> isArray (js_prop (resp_data r) ''pricing_plans'')"
    using assms(7) by (cases "js_prop (resp_data r) ''pricing_plans''") simp_all
  moreover have
    "array_map coerce_profile_plan [js_prop (resp_data r) ''pricing_plans''] = Throws TypeError"
    using assms(7) by (simp add: coerce_profile_plan_def)
  ultimately show ?thesis
    using assms by (simp add: fetchUserProfile_coercing_eq Let_def)
qed

theorem C9_null_relation_reports_and_returns_null_witness:
  "nullish (js_prop (profile_row JNull) ''pricing_plans'') \<and>
   fst (fetchUserProfile_coercing (answering (profile_row JNull))) = Returns JNull \<and>
   reported (snd (fetchUserProfile_coercing (answering (profile_row JNull)))) = [TypeError]"
proof -
  let ?w = "answering (profile_row JNull)"
  let ?u = "\<lparr>resp_user = sample_user, resp_userError = JNull\<rparr>"
  let ?r = "\<lparr>resp_data = profile_row JNull, resp_error = JNull\<rparr>"
  have 1: "auth_getUser ?w = Returns ?u" by (simp add: answering_def)
  have 2: "\<not> truthy (resp_userError ?u)" by simp
  have 3: "truthy (resp_user ?u)" by (simp add: sample_user_def)
  have 4: "run_query ?w (profile_request profileSelect_coercing (resp_user ?u)) = Returns ?r"
    by (simp add: answering_def)
  have 5: "\<not> truthy (resp_error ?r)" by simp
  have 6: "truthy (resp_data ?r)" by (simp add: profile_row_def)
  have 7: "nullish (js_prop (resp_data ?r) ''pricing_plans'')"
    by (simp add: profile_row_def)
  show ?thesis
    using C9_null_relation_reports_and_returns_null [OF 1 2 3 4 5 6 7] 7 by simp
qed

section \<open>Fetching the pricing plans\<close>

text \<open>
  Claim C3. When the caller omits \<open>is_featured\<close>, \<open>fetchPricingPlans\<close> applies no
  \<open>is_featured\<close> filter and returns all plans. In both variants the omitted option is
  replaced by \<open>false\<close> before the \<open>typeof\<close> test, so the test always succeeds and the
  query carries \<open>is_featured = false\<close>: of the six sample plans only the one that is not
  featured comes back.
\<close>

theorem C3_omitted_flag_still_filters:
  "names_of (fst (fetchPricingPlans_passthrough (table_world (sample_db JNull) sample_user) None None))
     = [JStr ''Foxtrot''] \<and>
   names_of (fst (fetchPricingPlans_coercing (table_world (sample_db JNull) sample_user) None None))
     = [JStr ''Foxtrot''] \<and>
   map q_filters (queries_issued (snd (fetchPricingPlans_passthrough
       (table_world (sample_db JNull) sample_user) None None))) = [[(''is_featured'', JBool False)]] \<and>
   map q_filters (queries_issued (snd (fetchPricingPlans_coercing
       (table_world (sample_db JNull) sample_user) None None))) = [[(''is_featured'', JBool False)]]"
proof -
  let ?w = "table_world (sample_db JNull) sample_user"
  have rows: "filter (matches [(''is_featured'', JBool False)]) (sample_db JNull ''pricing_plans'')
                = [plan_row 6 ''Foxtrot'' 5 False]"
    by (simp add: sample_db_def sample_plans_def matches_def plan_row_def)
  have be: "run_query ?w (pricing_request cols c None None) =
              Returns \<lparr>resp_data = JArr [project (select_columns cols) (plan_row 6 ''Foxtrot'' 5 False)],
                       resp_error = JNull\<rparr>" for cols c
    by (simp add: table_world_def table_backend_def pricing_request_def Let_def rows sort_rows_def)
  have p: "names_of (fst (fetchPricingPlans_passthrough ?w None None)) = [JStr ''Foxtrot'']"
    by (simp add: fetchPricingPlans_passthrough_eq be Let_def js_coalesce_def names_of_def
          elems_def js_prop_project passthrough_columns plan_row_def)
  have c: "names_of (fst (fetchPricingPlans_coercing ?w None None)) = [JStr ''Foxtrot'']"
    by (simp add: fetchPricingPlans_coercing_eq be Let_def names_of_def elems_def
          coercing_columns project_def plan_row_def coerce_plan_def)
  have qp: "map q_filters (queries_issued (snd (fetchPricingPlans_passthrough ?w None None)))
              = [[(''is_featured'', JBool False)]]"
    by (simp add: fetchPricingPlans_passthrough_eq be Let_def, simp add: pricing_request_def)
  have qc: "map q_filters (queries_issued (snd (fetchPricingPlans_coercing ?w None None)))
              = [[(''is_featured'', JBool False)]]"
    by (simp add: fetchPricingPlans_coercing_eq be Let_def elems_def split: completion.splits,
        simp add: pricing_request_def)
  from p c qp qc show ?thesis by simp
qed

theorem C3_omitted_flag_still_filters_witness:
  "map q_filters (queries_issued (snd (fetchPricingPlans_coercing
       (table_world (sample_db JNull) sample_user) None None))) = [[(''is_featured'', JBool False)]]"
  using C3_omitted_flag_still_filters by (elim conjE)

text \<open>
  Claim C4. If the backend query of \<open>fetchPricingPlans\<close> yields an error, the
  operation returns the empty sequence and the error reporter is invoked exactly once.
  The pass-through variant throws the error into its handler, which reports it. The
  coercing variant logs the error on the console and returns at once: the reporter is
  not invoked.
\<close>

theorem C4_query_error_gives_empty:
  assumes "run_query w (pricing_request selectQuery_passthrough ''price_monthly'' lim feat) = Returns r"
      and "truthy (resp_error r)"
      and "run_query w (pricing_request selectQuery_coercing ''name'' lim feat) = Returns r'"
      and "truthy (resp_error r')"
  shows "fst (fetchPricingPlans_passthrough w lim feat) = Returns (JArr []) \<and>
         reported (snd (fetchPricingPlans_passthrough w lim feat)) = [resp_error r] \<and>
         fst (fetchPricingPlans_coercing w lim feat) = Returns (JArr []) \<and>
         reported (snd (fetchPricingPlans_coercing w lim feat)) = [] \<and>
         snd (fetchPricingPlans_coercing w lim feat) =
           [QueryIssued (pricing_request selectQuery_coercing ''name'' lim feat),
            Console ''error'' [JStr ''Supabase error:'', resp_error r']]"
  using assms
  by (simp add: fetchPricingPlans_coercing_eq fetchPricingPlans_passthrough_eq Let_def)

theorem C4_query_error_gives_empty_witness:
  "truthy network_down \<and>
   fst (fetchPricingPlans_passthrough (failing_response network_down) (Some 2) (Some True))
     = Returns (JArr []) \<and>
   reported (snd (fetchPricingPlans_passthrough (failing_response network_down) (Some 2) (Some True)))
     = [network_down] \<and>
   fst (fetchPricingPlans_coercing (failing_response network_down) (Some 2) (Some True))
     = Returns (JArr []) \<and>
   reported (snd (fetchPricingPlans_coercing (failing_response network_down) (Some 2) (Some True)))
     = []"
proof -
  let ?w = "failing_response network_down"
  let ?r = "\<lparr>resp_data = JNull, resp_error = network_down\<rparr>"
  have 1: "run_query ?w q = Returns ?r" for q
    by (simp add: failing_response_def)
  have 2: "truthy (resp_error ?r)" by (simp add: network_down_def)
  show ?thesis
    using C4_query_error_gives_empty [OF 1 2 1 2, of "Some 2" "Some True"] 2 by simp
qed

text \<open>
  The claim as stated fails in the coercing variant: a query error leaves no report in
  the trace.
\<close>

theorem C4_coercing_logs_without_reporting:
  "reported (snd (fetchPricingPlans_coercing (failing_response network_down) None None)) = []"
  by (simp add: fetchPricingPlans_coercing_eq failing_response_def network_down_def Let_def)

text \<open>
  Claim C10. In the coercing variant, if the backend query for pricing plans yields no
  error but a data payload that is absent or not an array, \<open>fetchPricingPlans\<close> returns
  the empty sequence without invoking the error reporter and without throwing.
\<close>

theorem C10_malformed_data_gives_empty_unreported:
  assumes "run_query w (pricing_request selectQuery_coercing ''name'' lim feat) = Returns r"
      and "\<not> truthy (resp_error r)"
      and "nullish (resp_data r) \<or> \<not> isArray (resp_data r)"
  shows "fetchPricingPlans_coercing w lim feat =
           (Returns (JArr []),
            [QueryIssued (pricing_request selectQuery_coercing ''name'' lim feat),
             Console ''error'' [JStr ''Data is not in the expected format:'', resp_data r]]) \<and>
         reported (snd (fetchPricingPlans_coercing w lim feat)) = [] \<and>
         \<not> escapes (fetchPricingPlans_coercing w lim feat)"
proof -
  have "\<not> isArray (resp_data r)"
    using assms(3) by (cases "resp_data r") simp_all
  then show ?thesis
    using assms(1,2) by (simp add: fetchPricingPlans_coercing_eq Let_def)
qed

theorem C10_malformed_data_gives_empty_unreported_witness:
  "\<not> isArray (JObj [(''message'', JStr ''ok'')]) \<and>
   fst (fetchPricingPlans_coercing (answering (JObj [(''message'', JStr ''ok'')])) None None)
     = Returns (JArr []) \<and>
   reported (snd (fetchPricingPlans_coercing (answering (JObj [(''message'', JStr ''ok'')])) None None))
     = [] \<and>
   fst (fetchPricingPlans_coercing (answering JNull) None None) = Returns (JArr [])"
proof -
  let ?d = "JObj [(''message'', JStr ''ok'')]"
  have 1: "run_query (answering d) q = Returns \<lparr>resp_data = d, resp_error = JNull\<rparr>" for d q
    by (simp add: answering_def)
  have 2: "\<not> truthy (resp_error \<lparr>resp_data = d, resp_error = JNull\<rparr>)" for d by simp
  have 3: "nullish (resp_data \<lparr>resp_data = ?d, resp_error = JNull\<rparr>) \<or>
           \<not> isArray (resp_data \<lparr>resp_data = ?d, resp_error = JNull\<rparr>)" by simp
  have 4: "nullish (resp_data \<lparr>resp_data = JNull, resp_error = JNull\<rparr>) \<or>
           \<not> isArray (resp_data \<lparr>resp_data = JNull, resp_error = JNull\<rparr>)" by simp
  show ?thesis
    using C10_malformed_data_gives_empty_unreported [OF 1 2 3, of None None]
          C10_malformed_data_gives_empty_unreported [OF 1 2 4, of None None]
    by simp
qed

text \<open>
  Claim C7. Called with \<open>limit = 2\<close> and \<open>is_featured = true\<close> against a backend that
  holds five featured plans, \<open>fetchPricingPlans\<close> returns exactly the two featured plans
  with the lowest monthly price. The pass-through variant orders by \<open>price_monthly\<close>
  and does so: it returns two featured plans, each priced no higher than any featured
  plan left out. The coercing variant sends the same filter and limit but orders by
  \<open>name\<close>: it returns exactly two plans, the coerced first two rows of the featured
  plans in ascending order of name.
\<close>

theorem C7_two_cheapest_featured:
  assumes backend: "run_query w = table_backend db"
      and prices: "\<forall>x\<in>set (featured_rows db). numeric_at ''price_monthly'' x"
      and five: "length (featured_rows db) = 5"
  shows "fst (fetchPricingPlans_passthrough w (Some 2) (Some True)) =
           Returns (JArr (map (project (select_columns selectQuery_passthrough))
                           (take 2 (sort_rows ''price_monthly'' (featured_rows db))))) \<and>
         mset (sort_rows ''price_monthly'' (featured_rows db)) = mset (featured_rows db) \<and>
         length (take 2 (sort_rows ''price_monthly'' (featured_rows db))) = 2 \<and>
         (\<forall>a\<in>set (take 2 (sort_rows ''price_monthly'' (featured_rows db))).
            price_of (project (select_columns selectQuery_passthrough) a) = price_of a \<and>
            (\<forall>b\<in>set (drop 2 (sort_rows ''price_monthly'' (featured_rows db))).
               price_of a \<le> price_of b)) \<and>
         queries_issued (snd (fetchPricingPlans_passthrough w (Some 2) (Some True))) =
           [pricing_request selectQuery_passthrough ''price_monthly'' (Some 2) (Some True)] \<and>
         queries_issued (snd (fetchPricingPlans_coercing w (Some 2) (Some True))) =
           [pricing_request selectQuery_coercing ''name'' (Some 2) (Some True)] \<and>
         (\<exists>ps. array_map coerce_plan
                  (map (project (select_columns selectQuery_coercing))
                     (take 2 (sort_rows ''name'' (featured_rows db)))) = Returns ps \<and>
               fst (fetchPricingPlans_coercing w (Some 2) (Some True)) = Returns (JArr ps) \<and>
               length ps = 2) \<and>
         mset (sort_rows ''name'' (featured_rows db)) = mset (featured_rows db) \<and>
         sorted_wrt (\<lambda>a b. col_le (js_prop a ''name'') (js_prop b ''name''))
           (sort_rows ''name'' (featured_rows db))"
proof -
  let ?S = "sort_rows ''price_monthly'' (featured_rows db)"
  let ?N = "sort_rows ''name'' (featured_rows db)"
  let ?rows = "map (project (select_columns selectQuery_coercing)) (take 2 ?N)"
  have a: "fst (fetchPricingPlans_passthrough w (Some 2) (Some True)) =
           Returns (JArr (map (project (select_columns selectQuery_passthrough)) (take 2 ?S)))"
    by (simp add: fetchPricingPlans_passthrough_eq backend table_backend_pricing Let_def
          js_coalesce_def)
  have b: "mset ?S = mset (featured_rows db)"
    by (rule mset_sort_rows)
  have c: "length (take 2 ?S) = 2"
    using five by (simp add: length_sort_rows)
  have "sorted (map price_of ?S)"
    using prices by (rule sorted_prices)
  then have d: "\<forall>a\<in>set (take 2 ?S). \<forall>b\<in>set (drop 2 ?S). price_of a \<le> price_of b"
    by (rule cheapest_first)
  have e: "price_of (project (select_columns selectQuery_passthrough) a) = price_of a" for a
    by (simp add: price_of_def js_prop_project passthrough_columns)
  have f: "queries_issued (snd (fetchPricingPlans_passthrough w (Some 2) (Some True))) =
           [pricing_request selectQuery_passthrough ''price_monthly'' (Some 2) (Some True)]"
    by (simp add: fetchPricingPlans_passthrough_eq backend table_backend_pricing Let_def)
  have g: "queries_issued (snd (fetchPricingPlans_coercing w (Some 2) (Some True))) =
           [pricing_request selectQuery_coercing ''name'' (Some 2) (Some True)]"
    by (simp add: fetchPricingPlans_coercing_eq backend table_backend_pricing Let_def elems_def
          split: completion.splits)
  have "\<forall>x\<in>set (take 2 ?N). \<not> nullish x"
    using featured_row_object [of _ db] set_sort_rows [of "''name''" "featured_rows db"]
    by (auto dest: in_set_takeD)
  then have "\<forall>x\<in>set ?rows. \<not> nullish x"
    by (simp add: project_nullish)
  then obtain ps where ps: "array_map coerce_plan ?rows = Returns ps"
    using array_map_coerce_plan_total by blast
  have len: "length ps = 2"
    using array_map_length [OF ps] five by (simp add: length_sort_rows)
  have res: "fst (fetchPricingPlans_coercing w (Some 2) (Some True)) = Returns (JArr ps)"
    using ps
    by (simp add: fetchPricingPlans_coercing_eq backend table_backend_pricing Let_def elems_def)
  have h: "\<exists>ps. array_map coerce_plan ?rows = Returns ps \<and>
               fst (fetchPricingPlans_coercing w (Some 2) (Some True)) = Returns (JArr ps) \<and>
               length ps = 2"
    using ps res len by blast
  have i: "mset ?N = mset (featured_rows db)"
    by (rule mset_sort_rows)
  have j: "sorted_wrt (\<lambda>a b. col_le (js_prop a ''name'') (js_prop b ''name'')) ?N"
    by (rule sorted_sort_rows)
  have de: "\<forall>a\<in>set (take 2 ?S).
            price_of (project (select_columns selectQuery_passthrough) a) = price_of a \<and>
            (\<forall>b\<in>set (drop 2 ?S). price_of a \<le> price_of b)"
    using d e by blast
  from a b c de f g h i j show ?thesis by blast
qed

theorem C7_two_cheapest_featured_witness:
  "length (featured_rows (sample_db JNull)) = 5 \<and>
   fst (fetchPricingPlans_passthrough (table_world (sample_db JNull) sample_user)
          (Some 2) (Some True)) =
     Returns (JArr [plan_row 4 ''Delta'' 10 True, plan_row 5 ''Echo'' 20 True]) \<and>
   price_of (plan_row 4 ''Delta'' 10 True) = 10 \<and> price_of (plan_row 5 ''Echo'' 20 True) = 20 \<and>
   (\<exists>ps. fst (fetchPricingPlans_coercing (table_world (sample_db JNull) sample_user)
             (Some 2) (Some True)) = Returns (JArr ps) \<and> length ps = 2)"
proof -
  let ?w = "table_world (sample_db JNull) sample_user"
  have 1: "run_query ?w = table_backend (sample_db JNull)"
    by (simp add: table_world_def)
  have 2: "\<forall>x\<in>set (featured_rows (sample_db JNull)). numeric_at ''price_monthly'' x"
    unfolding sample_featured by (simp add: numeric_at_def plan_row_def)
  have 3: "length (featured_rows (sample_db JNull)) = 5"
    unfolding sample_featured by simp
  have 4: "project (select_columns selectQuery_passthrough) (plan_row i n p f) = plan_row i n p f"
    for i n p f
    by (simp add: passthrough_columns project_def plan_row_def)
  have 5: "price_of (plan_row i n p f) = p" for i n p f
    by (simp add: price_of_def plan_row_def)
  note t = C7_two_cheapest_featured [OF 1 2 3]
  have p: "fst (fetchPricingPlans_passthrough ?w (Some 2) (Some True)) =
             Returns (JArr [plan_row 4 ''Delta'' 10 True, plan_row 5 ''Echo'' 20 True])"
    using t by (simp add: sample_sorted 4)
  have c: "\<exists>ps. fst (fetchPricingPlans_coercing ?w (Some 2) (Some True)) = Returns (JArr ps) \<and>
                length ps = 2"
    using t by blast
  from 3 p c show ?thesis by (simp add: 5)
qed

text \<open>
  The claim as stated fails in the coercing variant on the sample table.
\<close>

theorem C7_coercing_orders_by_name:
  "names_of (fst (fetchPricingPlans_coercing (table_world (sample_db JNull) sample_user)
                    (Some 2) (Some True))) = [JStr ''Alpha'', JStr ''Bravo''] \<and>
   cheapest_names (sample_db JNull) 2 = [JStr ''Delta'', JStr ''Echo'']"
proof -
  let ?w = "table_world (sample_db JNull) sample_user"
  have s: "sort_rows ''name'' (featured_rows (sample_db JNull)) =
             [plan_row 1 ''Alpha'' 50 True, plan_row 2 ''Bravo'' 40 True,
              plan_row 3 ''Charlie'' 30 True, plan_row 4 ''Delta'' 10 True,
              plan_row 5 ''Echo'' 20 True]"
    unfolding sample_featured by (simp add: sort_rows_def plan_row_def)
  have be: "run_query ?w (pricing_request selectQuery_coercing ''name'' (Some 2) (Some True)) =
              Returns \<lparr>resp_data = JArr (map (project (select_columns selectQuery_coercing))
                                   [plan_row 1 ''Alpha'' 50 True, plan_row 2 ''Bravo'' 40 True]),
                       resp_error = JNull\<rparr>"
    by (simp add: table_world_def table_backend_pricing s)
  have a: "names_of (fst (fetchPricingPlans_coercing ?w (Some 2) (Some True))) =
             [JStr ''Alpha'', JStr ''Bravo'']"
    by (simp add: fetchPricingPlans_coercing_eq be Let_def names_of_def elems_def
          coercing_columns project_def plan_row_def coerce_plan_def)
  have b: "cheapest_names (sample_db JNull) 2 = [JStr ''Delta'', JStr ''Echo'']"
    by (simp add: cheapest_names_def sample_sorted plan_row_def)
  from a b show ?thesis by simp
qed




section \<open>Signing in and out\<close>

text \<open>
  Claim C6. \<open>loginWithGithub\<close>, \<open>loginWithLinkedIn\<close> and \<open>logout\<close> each return an
  outcome object whose \<open>error\<close> field is \<open>null\<close> on success and populated on failure,
  and no exception escapes. In the coercing variant the outcome carries the
  collaborator's error field, or the thrown value. In the pass-through variant nothing
  escapes either, but the two login operations return \<open>undefined\<close> in every case, and
  \<open>logout\<close> returns the outcome only when \<open>signOut\<close> resolves.
\<close>

theorem C6_auth_outcomes:
  "fst (loginWithGithub_coercing w) =
     (case auth_signInWithOAuth w \<lparr>provider = ''github'', redirectTo = window_origin w\<rparr> of
        Returns r \<Rightarrow> Returns (JObj [(''error'', resp_authError r)])
      | Throws e \<Rightarrow> Returns (JObj [(''error'', e)])) \<and>
   fst (loginWithLinkedIn_coercing w) =
     (case auth_signInWithOAuth w \<lparr>provider = ''linkedin'', redirectTo = window_origin w\<rparr> of
        Returns r \<Rightarrow> Returns (JObj [(''error'', resp_authError r)])
      | Throws e \<Rightarrow> Returns (JObj [(''error'', e)])) \<and>
   fst (logout_coercing w) =
     (case auth_signOut w of
        Returns r \<Rightarrow> Returns (JObj [(''error'', resp_authError r)])
      | Throws e \<Rightarrow> Returns (JObj [(''error'', e)])) \<and>
   fst (loginWithGithub_passthrough w) = Returns JUndefined \<and>
   fst (loginWithLinkedIn_passthrough w) = Returns JUndefined \<and>
   fst (logout_passthrough w) =
     (case auth_signOut w of
        Returns r \<Rightarrow> Returns (JObj [(''error'', resp_authError r)])
      | Throws e \<Rightarrow> Returns JUndefined)"
  by (simp add: login_coercing_eq login_passthrough_eq Let_def split: completion.splits)

theorem C6_auth_outcomes_witness:
  "fst (loginWithGithub_coercing (table_world (sample_db JNull) sample_user))
     = Returns (JObj [(''error'', JNull)]) \<and>
   fst (loginWithLinkedIn_coercing (failing_response network_down))
     = Returns (JObj [(''error'', network_down)]) \<and>
   fst (logout_coercing (throwing network_down)) = Returns (JObj [(''error'', network_down)]) \<and>
   fst (logout_passthrough (failing_response network_down))
     = Returns (JObj [(''error'', network_down)]) \<and>
   fst (logout_passthrough (throwing network_down)) = Returns JUndefined"
  using C6_auth_outcomes [of "table_world (sample_db JNull) sample_user"]
        C6_auth_outcomes [of "failing_response network_down"]
        C6_auth_outcomes [of "throwing network_down"]
  by (simp add: table_world_def failing_response_def throwing_def)

text \<open>
  The claim as stated fails in the pass-through variant: the sign-in resolves with an
  error and the caller receives \<open>undefined\<close>.
\<close>

theorem C6_passthrough_login_returns_no_outcome:
  "auth_signInWithOAuth (failing_response network_down)
     \<lparr>provider = ''github'', redirectTo = ''auth/callback''\<rparr>
     = Returns \<lparr>resp_authError = network_down\<rparr> \<and>
   fst (loginWithGithub_passthrough (failing_response network_down)) = Returns JUndefined"
  by (simp add: login_passthrough_eq failing_response_def Let_def)

end
